theory Spec2Isabelle
  imports Complex_Main "HOL-Library.Char_ord" "HOL-Library.List_Lexorder"
    "HOL-Library.Product_Lexorder" "HOL-Library.Multiset"
begin

section \<open>JavaScript values\<close>

text \<open>
  \<open>server.js\<close> holds two variants of the same API: one over SQLite (first part of the
  file) and one over a flat JSON file (second part). Both are embedded here, one handler per
  route, with the store passed in and returned. The routes of the ledger are modelled
  (transactions, debts, balances, settings, export and import); registration, login and the
  backup of the administrator are not. A handler takes what the \<open>auth\<close> middleware has
  verified: the \<open>uid\<close> (SQLite) or \<open>id\<close> (flat file) of the token.

  Numbers: a finite JavaScript number is modelled as an exact rational, so the rounding
  error, the overflow and the signed zero of IEEE doubles are abstracted; \<open>NaN\<close> is kept,
  because the code tests for it through \<open>||\<close>. Infinities are outside the model.
\<close>

datatype jsnum = NaN | Fin rat

fun num_add :: "jsnum \<Rightarrow> jsnum \<Rightarrow> jsnum" where
  "num_add (Fin a) (Fin b) = Fin (a + b)"
| "num_add _ _ = NaN"


fun num_mul :: "jsnum \<Rightarrow> jsnum \<Rightarrow> jsnum" where
  "num_mul (Fin a) (Fin b) = Fin (a * b)"
| "num_mul _ _ = NaN"

text \<open>The program only ever divides by the literal 100.\<close>

fun num_div100 :: "jsnum \<Rightarrow> jsnum" where
  "num_div100 (Fin a) = Fin (a / 100)"
| "num_div100 NaN = NaN"

fun num_neg :: "jsnum \<Rightarrow> jsnum" where
  "num_neg (Fin a) = Fin (- a)"
| "num_neg NaN = NaN"

text \<open>\<open>Math.round\<close>: the nearest integer, a tie going towards plus infinity.\<close>

fun Math_round :: "jsnum \<Rightarrow> jsnum" where
  "Math_round (Fin a) = Fin (of_int \<lfloor>a + 1 / 2\<rfloor>)"
| "Math_round NaN = NaN"

text \<open>
  A value that came out of \<open>JSON.parse\<close> (a request body, a row read back from the store).
  An object is a list of fields in insertion order. A JavaScript value is a JSON value or
  \<open>undefined\<close> (\<open>None\<close>).
\<close>

datatype json =
    JNull
  | JBool bool
  | JNum rat
  | JStr string
  | JArr "json list"
  | JObj "(string \<times> json) list"

type_synonym jsval = "json option"
type_synonym obj = "(string \<times> json) list"

text \<open>A value stored in a column of the SQLite variant.\<close>

datatype sqlval = SqlNull | SqlNum rat | SqlText string

text \<open>
  The built-ins of the language that the handlers call and that are not part of the
  repository: they are parameters of the model, and every theorem below holds for all of them.
  \<open>StringToNumber\<close> is \<open>Number\<close> on a string, \<open>NumberToString\<close> is \<open>String\<close> on a number,
  \<open>DateValue v\<close> is the time value of \<open>new Date(v)\<close> (\<open>NaN\<close> for an invalid date).
  Two are SQLite's column affinity: \<open>SqlTextOfNumber\<close> is the text a number
  becomes in a \<open>TEXT\<close> column, \<open>SqlNumberOfText\<close> the number a text becomes in a
  \<open>REAL\<close> column (\<open>None\<close> when the text does not look like a number and stays a text).
  \<open>BindObject\<close> is the value the SQLite driver binds for an array or an object.
\<close>

record builtins =
  StringToNumber :: "string \<Rightarrow> jsnum"
  NumberToString :: "rat \<Rightarrow> string"
  toLowerCase :: "string \<Rightarrow> string"
  DateValue :: "jsval \<Rightarrow> jsnum"
  SqlTextOfNumber :: "rat \<Rightarrow> string"
  SqlNumberOfText :: "string \<Rightarrow> rat option"
  BindObject :: "json \<Rightarrow> sqlval"

fun join_with :: "string \<Rightarrow> string list \<Rightarrow> string" where
  "join_with sep [] = []"
| "join_with sep [x] = x"
| "join_with sep (x # y # ys) = x @ sep @ join_with sep (y # ys)"

text \<open>\<open>String(v)\<close>; inside \<open>Array.prototype.join\<close> a \<open>null\<close> element is the empty string.\<close>

fun ToString :: "builtins \<Rightarrow> json \<Rightarrow> string" where
  "ToString b JNull = ''null''"
| "ToString b (JBool t) = (if t then ''true'' else ''false'')"
| "ToString b (JNum r) = NumberToString b r"
| "ToString b (JStr s) = s"
| "ToString b (JArr xs) =
     join_with '','' (map (\<lambda>x. if x = JNull then [] else ToString b x) xs)"
| "ToString b (JObj fs) = ''[object Object]''"

definition String_of :: "builtins \<Rightarrow> jsval \<Rightarrow> string" where
  "String_of b v = (case v of None \<Rightarrow> ''undefined'' | Some j \<Rightarrow> ToString b j)"

text \<open>\<open>Number(v)\<close>, which is also what \<open>*\<close>, \<open>/\<close> and unary \<open>+\<close>/\<open>-\<close> apply to an operand.\<close>

fun ToNumber :: "builtins \<Rightarrow> json \<Rightarrow> jsnum" where
  "ToNumber b JNull = Fin 0"
| "ToNumber b (JBool t) = (if t then Fin 1 else Fin 0)"
| "ToNumber b (JNum r) = Fin r"
| "ToNumber b (JStr s) = StringToNumber b s"
| "ToNumber b (JArr xs) = StringToNumber b (ToString b (JArr xs))"
| "ToNumber b (JObj fs) = StringToNumber b (ToString b (JObj fs))"

definition Number :: "builtins \<Rightarrow> jsval \<Rightarrow> jsnum" where
  "Number b v = (case v of None \<Rightarrow> NaN | Some j \<Rightarrow> ToNumber b j)"

text \<open>Truthiness, \<open>a || b\<close>, \<open>v == null\<close> and property access.\<close>

fun truthy_json :: "json \<Rightarrow> bool" where
  "truthy_json JNull = False"
| "truthy_json (JBool t) = t"
| "truthy_json (JNum r) = (r \<noteq> 0)"
| "truthy_json (JStr s) = (s \<noteq> [])"
| "truthy_json (JArr xs) = True"
| "truthy_json (JObj fs) = True"

definition truthy :: "jsval \<Rightarrow> bool" where
  "truthy v = (case v of None \<Rightarrow> False | Some j \<Rightarrow> truthy_json j)"

definition js_not :: "jsval \<Rightarrow> bool" where
  "js_not v = (case v of None \<Rightarrow> True | Some j \<Rightarrow> (if truthy_json j then False else True))"

definition js_or :: "jsval \<Rightarrow> jsval \<Rightarrow> jsval" where
  "js_or a c = (if truthy a then a else c)"



definition nullish :: "jsval \<Rightarrow> bool" where
  "nullish v = (v = None \<or> v = Some JNull)"

definition get_prop :: "obj \<Rightarrow> string \<Rightarrow> jsval" where
  "get_prop fs k = map_of fs k"

text \<open>A number as \<open>JSON.stringify\<close> writes it, and as SQLite stores it: \<open>NaN\<close> becomes null.\<close>

definition num_json :: "jsnum \<Rightarrow> json" where
  "num_json n = (case n of NaN \<Rightarrow> JNull | Fin r \<Rightarrow> JNum r)"

text \<open>
  Setting a property: an existing key keeps its place, a new key goes to the end. An object
  spread \<open>{...a, ...c}\<close> sets the fields of \<open>a\<close>, then those of \<open>c\<close>.
\<close>

fun set_prop :: "obj \<Rightarrow> string \<Rightarrow> json \<Rightarrow> obj" where
  "set_prop [] k v = [(k, v)]"
| "set_prop ((k', v') # fs) k v =
     (if k' = k then (k, v) # fs else (k', v') # set_prop fs k v)"

definition spread :: "obj \<Rightarrow> obj \<Rightarrow> obj" where
  "spread a c = foldl (\<lambda>acc (k, v). set_prop acc k v) a c"

text \<open>
  What a handler leaves behind: a response (status and body; \<open>res.json(undefined)\<close> has no
  body) or an exception. The SQLite handlers are \<open>async\<close> and have no \<open>try\<close> around their
  statements, so a rejected statement ends the handler with no response sent.
\<close>

datatype fault = TypeError | SQLITE_CONSTRAINT

datatype reply = Reply nat jsval | Threw fault

definition res_json :: "json \<Rightarrow> reply" where
  "res_json v = Reply 200 (Some v)"

definition res_error :: "nat \<Rightarrow> string \<Rightarrow> reply" where
  "res_error code msg = Reply code (Some (JObj [(''error'', JStr msg)]))"

section \<open>The SQLite variant\<close>

subsection \<open>Values, rows and tables\<close>

text \<open>
  Binding a JavaScript value to a \<open>?\<close> of a statement (node-sqlite3): null and undefined
  are \<open>NULL\<close>, a boolean is 0 or 1.
\<close>

definition bind :: "builtins \<Rightarrow> jsval \<Rightarrow> sqlval" where
  "bind b v =
     (case v of
        None \<Rightarrow> SqlNull
      | Some JNull \<Rightarrow> SqlNull
      | Some (JBool t) \<Rightarrow> SqlNum (if t then 1 else 0)
      | Some (JNum r) \<Rightarrow> SqlNum r
      | Some (JStr s) \<Rightarrow> SqlText s
      | Some j \<Rightarrow> BindObject b j)"

definition bind_num :: "jsnum \<Rightarrow> sqlval" where
  "bind_num n = (case n of NaN \<Rightarrow> SqlNull | Fin r \<Rightarrow> SqlNum r)"

definition text_affinity :: "builtins \<Rightarrow> sqlval \<Rightarrow> sqlval" where
  "text_affinity b v = (case v of SqlNum r \<Rightarrow> SqlText (SqlTextOfNumber b r) | _ \<Rightarrow> v)"

definition real_affinity :: "builtins \<Rightarrow> sqlval \<Rightarrow> sqlval" where
  "real_affinity b v =
     (case v of
        SqlText s \<Rightarrow> (case SqlNumberOfText b s of Some r \<Rightarrow> SqlNum r | None \<Rightarrow> SqlText s)
      | _ \<Rightarrow> v)"

definition sql_json :: "sqlval \<Rightarrow> json" where
  "sql_json v = (case v of SqlNull \<Rightarrow> JNull | SqlNum r \<Rightarrow> JNum r | SqlText s \<Rightarrow> JStr s)"


record settings_row =
  s_user_id :: nat
  currency :: sqlval
  tax_income :: sqlval
  tax_expense :: sqlval
  monthly_expense_cap :: sqlval

record tx_row =
  tx_id :: nat
  tx_user_id :: nat
  tx_date :: sqlval
  tx_type :: sqlval
  tx_category :: sqlval
  tx_base :: sqlval
  tx_tax :: sqlval
  tx_total :: sqlval
  tx_employee :: sqlval
  tx_notes :: sqlval
  tx_created_at :: string

record debt_row =
  debt_id :: nat
  debt_user_id :: nat
  debt_date :: sqlval
  debt_employee :: sqlval
  debt_kind :: sqlval
  debt_amount :: sqlval
  debt_delta :: sqlval
  debt_notes :: sqlval
  debt_created_at :: string

text \<open>
  The database: the ids of the \<open>users\<close> table (what the foreign keys look at), the three
  other tables, and the \<open>AUTOINCREMENT\<close> counters of \<open>sqlite_sequence\<close>.
\<close>

record database =
  users :: "nat list"
  settings :: "settings_row list"
  transactions :: "tx_row list"
  debts :: "debt_row list"
  tx_seq :: nat
  debt_seq :: nat

text \<open>A row as the object \<open>db.get\<close> returns, columns in the order of the schema.\<close>

definition tx_obj :: "tx_row \<Rightarrow> obj" where
  "tx_obj t =
     [(''id'', JNum (of_nat (tx_id t))), (''user_id'', JNum (of_nat (tx_user_id t))),
      (''date'', sql_json (tx_date t)), (''type'', sql_json (tx_type t)),
      (''category'', sql_json (tx_category t)), (''base'', sql_json (tx_base t)),
      (''tax'', sql_json (tx_tax t)), (''total'', sql_json (tx_total t)),
      (''employee'', sql_json (tx_employee t)), (''notes'', sql_json (tx_notes t)),
      (''created_at'', JStr (tx_created_at t))]"

definition debt_obj :: "debt_row \<Rightarrow> obj" where
  "debt_obj d =
     [(''id'', JNum (of_nat (debt_id d))), (''user_id'', JNum (of_nat (debt_user_id d))),
      (''date'', sql_json (debt_date d)), (''employee'', sql_json (debt_employee d)),
      (''kind'', sql_json (debt_kind d)), (''amount'', sql_json (debt_amount d)),
      (''delta'', sql_json (debt_delta d)), (''notes'', sql_json (debt_notes d)),
      (''created_at'', JStr (debt_created_at d))]"


text \<open>
  The constraints of the schema, on a row as stored (after column affinity): \<open>NOT NULL\<close>
  and the \<open>CHECK\<close> on \<open>type\<close> and \<open>kind\<close>, which every \<open>INSERT\<close> and
  \<open>UPDATE\<close> checks, and the foreign key on \<open>user_id\<close>, which \<open>INSERT\<close> checks (no
  \<open>UPDATE\<close> of the program writes \<open>user_id\<close>).
\<close>

definition tx_constraints :: "tx_row \<Rightarrow> bool" where
  "tx_constraints t \<longleftrightarrow>
     tx_date t \<noteq> SqlNull \<and>
     (tx_type t = SqlText ''income'' \<or> tx_type t = SqlText ''expense'') \<and>
     tx_category t \<noteq> SqlNull \<and> tx_base t \<noteq> SqlNull \<and>
     tx_tax t \<noteq> SqlNull \<and> tx_total t \<noteq> SqlNull"

definition debt_constraints :: "debt_row \<Rightarrow> bool" where
  "debt_constraints d \<longleftrightarrow>
     debt_date d \<noteq> SqlNull \<and> debt_employee d \<noteq> SqlNull \<and>
     (debt_kind d = SqlText ''advance'' \<or> debt_kind d = SqlText ''repay'') \<and>
     debt_amount d \<noteq> SqlNull \<and> debt_delta d \<noteq> SqlNull"

definition foreign_key :: "database \<Rightarrow> nat \<Rightarrow> bool" where
  "foreign_key db uid \<longleftrightarrow> uid \<in> set (users db)"

text \<open>\<open>AUTOINCREMENT\<close>: one more than the largest id the table has ever held.\<close>

definition next_id :: "nat \<Rightarrow> nat list \<Rightarrow> nat" where
  "next_id seq ids = Suc (fold max ids seq)"

definition select_settings :: "database \<Rightarrow> nat \<Rightarrow> settings_row option" where
  "select_settings db uid = find (\<lambda>s. s_user_id s = uid) (settings db)"

definition select_tx :: "database \<Rightarrow> nat \<Rightarrow> tx_row option" where
  "select_tx db i = find (\<lambda>t. tx_id t = i) (transactions db)"

definition select_tx_owned :: "database \<Rightarrow> nat \<Rightarrow> nat \<Rightarrow> tx_row option" where
  "select_tx_owned db i uid = find (\<lambda>t. tx_id t = i \<and> tx_user_id t = uid) (transactions db)"

definition select_debt :: "database \<Rightarrow> nat \<Rightarrow> debt_row option" where
  "select_debt db i = find (\<lambda>d. debt_id d = i) (debts db)"

definition select_debt_owned :: "database \<Rightarrow> nat \<Rightarrow> nat \<Rightarrow> debt_row option" where
  "select_debt_owned db i uid = find (\<lambda>d. debt_id d = i \<and> debt_user_id d = uid) (debts db)"

definition row_reply :: "obj option \<Rightarrow> reply" where
  "row_reply r = Reply 200 (map_option JObj r)"

subsection \<open>Settings\<close>




subsection \<open>Transactions\<close>

text \<open>
  The operand of \<open>/100.0\<close> in both writing handlers,
  \<open>type==='income' ? (s.tax_income||0) : (s.tax_expense||0)\<close>, as the number the division
  makes of it.
\<close>

definition rate_percent :: "builtins \<Rightarrow> settings_row \<Rightarrow> jsval \<Rightarrow> jsnum" where
  "rate_percent b s type =
     Number b (if type = Some (JStr ''income'')
               then js_or (Some (sql_json (tax_income s))) (Some (JNum 0))
               else js_or (Some (sql_json (tax_expense s))) (Some (JNum 0)))"





text \<open>
  The \<open>:id\<close> of a route is modelled as the row id it denotes; a segment that denotes no
  integer behaves as an id that no row has.
\<close>

definition sqlite_PUT_transactions ::
  "builtins \<Rightarrow> nat \<Rightarrow> nat \<Rightarrow> obj \<Rightarrow> database \<Rightarrow> reply \<times> database" where
  "sqlite_PUT_transactions b uid i body db =
     (case select_tx_owned db i uid of
        None \<Rightarrow> (res_error 404 ''NOT_FOUND'', db)
      | Some t \<Rightarrow>
         (let newVals = spread (tx_obj t) body
          in case select_settings db uid of
             None \<Rightarrow> (Threw TypeError, db)
           | Some s \<Rightarrow>
              (let rate = num_div100 (rate_percent b s (get_prop newVals ''type''));
                   base = Number b (js_or (get_prop newVals ''base'') (Some (JNum 0)));
                   tax = num_div100 (Math_round (num_mul (num_mul base rate) (Fin 100)));
                   total = num_div100 (Math_round (num_mul (num_add base tax) (Fin 100)));
                   upd = (\<lambda>x. x\<lparr>
                          tx_date := text_affinity b (bind b (get_prop newVals ''date'')),
                          tx_type := text_affinity b (bind b (get_prop newVals ''type'')),
                          tx_category := text_affinity b (bind b (get_prop newVals ''category'')),
                          tx_base := real_affinity b (bind_num base),
                          tx_tax := real_affinity b (bind_num tax),
                          tx_total := real_affinity b (bind_num total),
                          tx_employee := text_affinity b
                            (bind b (js_or (get_prop newVals ''employee'') (Some JNull))),
                          tx_notes := text_affinity b
                            (bind b (js_or (get_prop newVals ''notes'') (Some JNull)))\<rparr>);
                   hit = (\<lambda>x. tx_id x = i \<and> tx_user_id x = uid);
                   db' = db\<lparr>transactions :=
                          map (\<lambda>x. if hit x then upd x else x) (transactions db)\<rparr>
               in if list_all tx_constraints (map upd (filter hit (transactions db)))
                  then (row_reply (map_option tx_obj (select_tx db' i)), db')
                  else (Threw SQLITE_CONSTRAINT, db))))"

definition sqlite_DELETE_transactions :: "nat \<Rightarrow> nat \<Rightarrow> database \<Rightarrow> reply \<times> database" where
  "sqlite_DELETE_transactions uid i db =
     (res_json (JObj [(''ok'', JBool True)]),
      db\<lparr>transactions :=
           filter (\<lambda>x. \<not> (tx_id x = i \<and> tx_user_id x = uid)) (transactions db)\<rparr>)"

subsection \<open>Debts\<close>




definition sqlite_POST_debts ::
  "builtins \<Rightarrow> nat \<Rightarrow> string \<Rightarrow> obj \<Rightarrow> database \<Rightarrow> reply \<times> database" where
  "sqlite_POST_debts b uid now body db =
     (let date = get_prop body ''date''; employee = get_prop body ''employee'';
          kind = get_prop body ''kind''; amount = get_prop body ''amount'';
          notes = get_prop body ''notes''
      in if js_not date \<or> js_not employee \<or> js_not kind \<or> nullish amount
         then (res_error 400 ''Missing fields'', db)
         else
          (let amt = Number b (js_or amount (Some (JNum 0)));
               delta = (if kind = Some (JStr ''advance'') then amt else num_neg amt);
               row = \<lparr>debt_id = next_id (debt_seq db) (map debt_id (debts db)),
                      debt_user_id = uid,
                      debt_date = text_affinity b (bind b date),
                      debt_employee = text_affinity b (bind b employee),
                      debt_kind = text_affinity b (bind b kind),
                      debt_amount = real_affinity b (bind_num amt),
                      debt_delta = real_affinity b (bind_num delta),
                      debt_notes = text_affinity b (bind b (js_or notes (Some JNull))),
                      debt_created_at = now\<rparr>
           in if foreign_key db uid \<and> debt_constraints row
              then (row_reply (Some (debt_obj row)),
                    db\<lparr>debts := debts db @ [row], debt_seq := debt_id row\<rparr>)
              else (Threw SQLITE_CONSTRAINT, db)))"

definition sqlite_PUT_debts ::
  "builtins \<Rightarrow> nat \<Rightarrow> nat \<Rightarrow> obj \<Rightarrow> database \<Rightarrow> reply \<times> database" where
  "sqlite_PUT_debts b uid i body db =
     (case select_debt_owned db i uid of
        None \<Rightarrow> (res_error 404 ''NOT_FOUND'', db)
      | Some d \<Rightarrow>
         (let newVals = spread (debt_obj d) body;
              amt = Number b (js_or (get_prop newVals ''amount'') (Some (JNum 0)));
              delta = (if get_prop newVals ''kind'' = Some (JStr ''advance'')
                       then amt else num_neg amt);
              upd = (\<lambda>x. x\<lparr>
                     debt_date := text_affinity b (bind b (get_prop newVals ''date'')),
                     debt_employee := text_affinity b (bind b (get_prop newVals ''employee'')),
                     debt_kind := text_affinity b (bind b (get_prop newVals ''kind'')),
                     debt_amount := real_affinity b (bind_num amt),
                     debt_delta := real_affinity b (bind_num delta),
                     debt_notes := text_affinity b
                       (bind b (js_or (get_prop newVals ''notes'') (Some JNull)))\<rparr>);
              hit = (\<lambda>x. debt_id x = i \<and> debt_user_id x = uid);
              db' = db\<lparr>debts := map (\<lambda>x. if hit x then upd x else x) (debts db)\<rparr>
          in if list_all debt_constraints (map upd (filter hit (debts db)))
             then (row_reply (map_option debt_obj (select_debt db' i)), db')
             else (Threw SQLITE_CONSTRAINT, db)))"

definition sqlite_DELETE_debts :: "nat \<Rightarrow> nat \<Rightarrow> database \<Rightarrow> reply \<times> database" where
  "sqlite_DELETE_debts uid i db =
     (res_json (JObj [(''ok'', JBool True)]),
      db\<lparr>debts := filter (\<lambda>x. \<not> (debt_id x = i \<and> debt_user_id x = uid)) (debts db)\<rparr>)"

section \<open>The flat-file variant\<close>

subsection \<open>The JSON document\<close>

text \<open>
  The store is one JSON file, read whole and written whole. Its content is modelled as the
  JSON value it holds (\<open>None\<close>: the file does not exist yet), so \<open>JSON.parse\<close> of what
  \<open>JSON.stringify\<close> wrote is the value itself.
\<close>

type_synonym db_file = "json option"

definition init :: json where
  "init = JObj
     [(''users'', JArr []), (''transactions'', JArr []), (''debts'', JArr []),
      (''settings'', JObj
        [(''paymentMethods'',
            JArr [JStr ''cash'', JStr ''bank'', JStr ''card'', JStr ''cheque'', JStr ''other'']),
         (''incomeCategories'',
            JArr [JStr ''sales'', JStr ''subscriptions'', JStr ''services'', JStr ''interest'',
                  JStr ''other'']),
         (''expenseCategories'',
            JArr [JStr ''salary'', JStr ''rent'', JStr ''maintenance'', JStr ''logistics'',
                  JStr ''purchases'', JStr ''internet'', JStr ''energy'', JStr ''tax'',
                  JStr ''marketing'', JStr ''other'']),
         (''employees'', JArr [])])]"

definition ensureDB :: "db_file \<Rightarrow> db_file" where
  "ensureDB f = (case f of None \<Rightarrow> Some init | Some d \<Rightarrow> Some d)"

definition readDB :: "db_file \<Rightarrow> json \<times> db_file" where
  "readDB f = (case ensureDB f of None \<Rightarrow> (init, Some init) | Some d \<Rightarrow> (d, Some d))"

definition writeDB :: "json \<Rightarrow> db_file \<Rightarrow> db_file" where
  "writeDB db f = Some db"

text \<open>
  Reading a property \<open>v.k\<close>: of \<open>null\<close> it throws; an object has its own fields; for the
  names the handlers read, every other value has none.
\<close>

definition dot :: "json \<Rightarrow> string \<Rightarrow> fault + jsval" where
  "dot v k = (case v of JNull \<Rightarrow> Inl TypeError | JObj fs \<Rightarrow> Inr (map_of fs k) | _ \<Rightarrow> Inr None)"

text \<open>\<open>a === c\<close>: primitives by value; two objects or arrays read from JSON are never the same.\<close>

definition strict_eq :: "jsval \<Rightarrow> jsval \<Rightarrow> bool" where
  "strict_eq a c =
     (case (a, c) of
        (None, None) \<Rightarrow> True
      | (Some JNull, Some JNull) \<Rightarrow> True
      | (Some (JBool x), Some (JBool y)) \<Rightarrow> x = y
      | (Some (JNum x), Some (JNum y)) \<Rightarrow> x = y
      | (Some (JStr x), Some (JStr y)) \<Rightarrow> x = y
      | _ \<Rightarrow> False)"

fun num_ge :: "jsnum \<Rightarrow> jsnum \<Rightarrow> bool" where
  "num_ge (Fin a) (Fin c) = (c \<le> a)"
| "num_ge _ _ = False"

fun num_le :: "jsnum \<Rightarrow> jsnum \<Rightarrow> bool" where
  "num_le (Fin a) (Fin c) = (a \<le> c)"
| "num_le _ _ = False"

text \<open>Array methods whose callback may throw: the exception ends the iteration.\<close>

fun filterE :: "(json \<Rightarrow> fault + bool) \<Rightarrow> json list \<Rightarrow> fault + json list" where
  "filterE p [] = Inr []"
| "filterE p (x # xs) =
     (case p x of
        Inl e \<Rightarrow> Inl e
      | Inr keep \<Rightarrow>
         (case filterE p xs of
            Inl e \<Rightarrow> Inl e
          | Inr ys \<Rightarrow> Inr (if keep then x # ys else ys)))"

fun findIndex :: "(json \<Rightarrow> fault + bool) \<Rightarrow> json list \<Rightarrow> fault + nat option" where
  "findIndex p [] = Inr None"
| "findIndex p (x # xs) =
     (case p x of
        Inl e \<Rightarrow> Inl e
      | Inr True \<Rightarrow> Inr (Some 0)
      | Inr False \<Rightarrow>
         (case findIndex p xs of Inl e \<Rightarrow> Inl e | Inr r \<Rightarrow> Inr (map_option Suc r)))"

text \<open>The callbacks \<open>x => x.id === id\<close> and \<open>x => x.id !== id\<close>.\<close>

definition id_is :: "string \<Rightarrow> json \<Rightarrow> fault + bool" where
  "id_is i x = (case dot x ''id'' of Inl e \<Rightarrow> Inl e | Inr v \<Rightarrow> Inr (strict_eq v (Some (JStr i))))"

definition id_is_not :: "string \<Rightarrow> json \<Rightarrow> fault + bool" where
  "id_is_not i x =
     (case dot x ''id'' of Inl e \<Rightarrow> Inl e
      | Inr v \<Rightarrow> Inr (if strict_eq v (Some (JStr i)) then False else True))"

text \<open>An object literal: a field whose value is \<open>undefined\<close> is not written by \<open>JSON.stringify\<close>.\<close>

definition literal :: "(string \<times> jsval) list \<Rightarrow> obj" where
  "literal fs = concat (map (\<lambda>(k, v). case v of None \<Rightarrow> [] | Some j \<Rightarrow> [(k, j)]) fs)"

subsection \<open>Transactions\<close>

text \<open>One \<open>if (q) list = list.filter(p)\<close> of the list handler.\<close>

definition filter_step :: "jsval \<Rightarrow> (json \<Rightarrow> fault + bool) \<Rightarrow> jsval \<Rightarrow> fault + jsval" where
  "filter_step q p list =
     (if truthy q
      then (case list of
              Some (JArr xs) \<Rightarrow>
                (case filterE p xs of Inl e \<Rightarrow> Inl e | Inr ys \<Rightarrow> Inr (Some (JArr ys)))
            | _ \<Rightarrow> Inl TypeError)
      else Inr list)"

definition flat_GET_transactions :: "builtins \<Rightarrow> obj \<Rightarrow> db_file \<Rightarrow> reply \<times> db_file" where
  "flat_GET_transactions b query f =
     (let type = get_prop query ''type''; frm = get_prop query ''frm'';
          to = get_prop query ''to''; employee = get_prop query ''employee'';
          (db, f') = readDB f
      in case dot db ''transactions'' of
           Inl e \<Rightarrow> (Threw e, f')
         | Inr list0 \<Rightarrow>
          (case filter_step type
                  (\<lambda>t. case dot t ''type'' of Inl e \<Rightarrow> Inl e | Inr v \<Rightarrow> Inr (strict_eq v type))
                  list0 of
             Inl e \<Rightarrow> (Threw e, f')
           | Inr list1 \<Rightarrow>
          (case filter_step employee
                  (\<lambda>t. case dot t ''employee'' of Inl e \<Rightarrow> Inl e
                     | Inr v \<Rightarrow> Inr (toLowerCase b (String_of b (js_or v (Some (JStr []))))
                                     = toLowerCase b (String_of b employee)))
                  list1 of
             Inl e \<Rightarrow> (Threw e, f')
           | Inr list2 \<Rightarrow>
          (case filter_step frm
                  (\<lambda>t. case dot t ''date'' of Inl e \<Rightarrow> Inl e
                     | Inr v \<Rightarrow> Inr (num_ge (DateValue b v) (DateValue b frm)))
                  list2 of
             Inl e \<Rightarrow> (Threw e, f')
           | Inr list3 \<Rightarrow>
          (case filter_step to
                  (\<lambda>t. case dot t ''date'' of Inl e \<Rightarrow> Inl e
                     | Inr v \<Rightarrow> Inr (num_le (DateValue b v) (DateValue b to)))
                  list3 of
             Inl e \<Rightarrow> (Threw e, f')
           | Inr list4 \<Rightarrow> (Reply 200 list4, f'))))))"

text \<open>
  \<open>db.xs.push(row); writeDB(db)\<close> for \<open>xs\<close> one of \<open>transactions\<close> and \<open>debts\<close>:
  it throws unless \<open>db.xs\<close> is an array.
\<close>

definition push_row :: "string \<Rightarrow> obj \<Rightarrow> db_file \<Rightarrow> reply \<times> db_file" where
  "push_row coll row f =
     (let (db, f') = readDB f
      in case db of
           JObj fs \<Rightarrow>
            (case map_of fs coll of
               Some (JArr xs) \<Rightarrow>
                 (res_json (JObj row),
                  writeDB (JObj (set_prop fs coll (JArr (xs @ [JObj row])))) f')
             | _ \<Rightarrow> (Threw TypeError, f'))
         | _ \<Rightarrow> (Threw TypeError, f'))"


definition flat_PUT_transactions :: "builtins \<Rightarrow> string \<Rightarrow> obj \<Rightarrow> db_file \<Rightarrow> reply \<times> db_file" where
  "flat_PUT_transactions b i body f =
     (let (db, f') = readDB f
      in case db of
           JObj fs \<Rightarrow>
            (case map_of fs ''transactions'' of
               Some (JArr xs) \<Rightarrow>
                (case findIndex (id_is i) xs of
                   Inl e \<Rightarrow> (Threw e, f')
                 | Inr None \<Rightarrow> (res_error 404 ''not found'', f')
                 | Inr (Some idx) \<Rightarrow>
                    (let t = spread (case xs ! idx of JObj old \<Rightarrow> old | _ \<Rightarrow> []) body;
                         taxValue = num_div100 (num_mul (Number b (get_prop t ''amount''))
                            (Number b (js_or (get_prop t ''taxPercent'') (Some (JNum 0)))));
                         total = num_mul
                            (if get_prop t ''type'' = Some (JStr ''expense'') then Fin (- 1) else Fin 1)
                            (num_add (Number b (get_prop t ''amount'')) taxValue);
                         t' = set_prop (set_prop t ''taxValue'' (num_json taxValue))
                                ''total'' (num_json total)
                     in (res_json (JObj t'),
                         writeDB (JObj (set_prop fs ''transactions'' (JArr (xs[idx := JObj t'])))) f')))
             | _ \<Rightarrow> (Threw TypeError, f'))
         | _ \<Rightarrow> (Threw TypeError, f'))"

text \<open>\<open>DELETE\<close> of a transaction or of a debt: the same code on \<open>db.transactions\<close> and \<open>db.debts\<close>.\<close>

definition delete_by_id :: "string \<Rightarrow> string \<Rightarrow> db_file \<Rightarrow> reply \<times> db_file" where
  "delete_by_id coll i f =
     (let (db, f') = readDB f
      in case db of
           JObj fs \<Rightarrow>
            (case map_of fs coll of
               Some (JArr xs) \<Rightarrow>
                (case filterE (id_is_not i) xs of
                   Inl e \<Rightarrow> (Threw e, f')
                 | Inr ys \<Rightarrow>
                    (res_json (JObj [(''ok'', JBool True),
                                     (''deleted'', JNum (of_nat (length xs) - of_nat (length ys)))]),
                     writeDB (JObj (set_prop fs coll (JArr ys))) f'))
             | _ \<Rightarrow> (Threw TypeError, f'))
         | _ \<Rightarrow> (Threw TypeError, f'))"

definition flat_DELETE_transactions :: "string \<Rightarrow> db_file \<Rightarrow> reply \<times> db_file" where
  "flat_DELETE_transactions i f = delete_by_id ''transactions'' i f"

subsection \<open>Debts\<close>

definition flat_GET_debts :: "db_file \<Rightarrow> reply \<times> db_file" where
  "flat_GET_debts f =
     (let (db, f') = readDB f
      in case dot db ''debts'' of Inl e \<Rightarrow> (Threw e, f') | Inr v \<Rightarrow> (Reply 200 v, f'))"

definition flat_POST_debts ::
  "builtins \<Rightarrow> jsval \<Rightarrow> string \<Rightarrow> string \<Rightarrow> obj \<Rightarrow> db_file \<Rightarrow> reply \<times> db_file" where
  "flat_POST_debts b uid uuid now d f =
     (if js_not (get_prop d ''date'') \<or> js_not (get_prop d ''employee'') \<or> js_not (get_prop d ''kind'')
      then (res_error 400 ''date, employee, kind required'', f)
      else
       (let row = literal
              [(''id'', Some (JStr uuid)), (''date'', get_prop d ''date''),
               (''employee'', get_prop d ''employee''),
               (''employeeId'', js_or (get_prop d ''employeeId'') (Some JNull)),
               (''kind'', get_prop d ''kind''),
               (''description'', js_or (get_prop d ''description'') (Some JNull)),
               (''plus'', Some (num_json (Number b (js_or (get_prop d ''plus'') (Some (JNum 0)))))),
               (''minus'', Some (num_json (Number b (js_or (get_prop d ''minus'') (Some (JNum 0)))))),
               (''createdBy'', uid), (''createdAt'', Some (JStr now))]
        in push_row ''debts'' row f))"

definition flat_PUT_debts :: "string \<Rightarrow> obj \<Rightarrow> db_file \<Rightarrow> reply \<times> db_file" where
  "flat_PUT_debts i body f =
     (let (db, f') = readDB f
      in case db of
           JObj fs \<Rightarrow>
            (case map_of fs ''debts'' of
               Some (JArr xs) \<Rightarrow>
                (case findIndex (id_is i) xs of
                   Inl e \<Rightarrow> (Threw e, f')
                 | Inr None \<Rightarrow> (res_error 404 ''not found'', f')
                 | Inr (Some idx) \<Rightarrow>
                    (let d = spread (case xs ! idx of JObj old \<Rightarrow> old | _ \<Rightarrow> []) body
                     in (res_json (JObj d),
                         writeDB (JObj (set_prop fs ''debts'' (JArr (xs[idx := JObj d])))) f')))
             | _ \<Rightarrow> (Threw TypeError, f'))
         | _ \<Rightarrow> (Threw TypeError, f'))"

definition flat_DELETE_debts :: "string \<Rightarrow> db_file \<Rightarrow> reply \<times> db_file" where
  "flat_DELETE_debts i f = delete_by_id ''debts'' i f"

subsection \<open>Balances\<close>



record bucket =
  employee :: json
  advances :: jsnum
  repays :: jsnum
  balance :: jsnum












subsection \<open>Settings, export and import\<close>


definition flat_GET_export :: "db_file \<Rightarrow> reply \<times> db_file" where
  "flat_GET_export f = (let (db, f') = readDB f in (res_json db, f'))"

definition flat_POST_import :: "obj \<Rightarrow> db_file \<Rightarrow> reply \<times> db_file" where
  "flat_POST_import body f =
     (case get_prop body ''data'' of
        None \<Rightarrow> (res_error 400 ''data required'', f)
      | Some data \<Rightarrow>
         (if js_not (Some data) then (res_error 400 ''data required'', f)
          else (res_json (JObj [(''ok'', JBool True)]), writeDB data f)))"

section \<open>Words of the specification\<close>



text \<open>The specification's \<open>delta\<close>: \<open>+amount\<close> for an advance, \<open>-amount\<close> for a repayment.\<close>

definition signed_delta :: "string \<Rightarrow> rat \<Rightarrow> rat" where
  "signed_delta kind amount = (if kind = ''advance'' then amount else - amount)"









section \<open>Example stores\<close>

text \<open>
  The built-ins for the closed examples. The examples pass no string where a number is read,
  no number where a text is stored, no array or object to a statement and no filter to a
  list, so none of these functions is ever consulted in them.
\<close>

definition sample_builtins :: builtins where
  "sample_builtins =
     \<lparr>StringToNumber = (\<lambda>s. NaN), NumberToString = (\<lambda>r. []), toLowerCase = (\<lambda>s. s),
      DateValue = (\<lambda>v. NaN), SqlTextOfNumber = (\<lambda>r. []), SqlNumberOfText = (\<lambda>s. None),
      BindObject = (\<lambda>j. SqlNull)\<rparr>"

text \<open>
  A database of two tenants. Tenant 1 has two transactions and two debts, tenant 2 has one
  transaction; both have the default rates of 15 percent. The first transaction still carries
  the tax of an earlier rate of 10 percent.
\<close>

definition tenant1_settings :: settings_row where
  "tenant1_settings =
     \<lparr>s_user_id = 1, currency = SqlText ''SAR'', tax_income = SqlNum 15, tax_expense = SqlNum 15,
      monthly_expense_cap = SqlNum 50000\<rparr>"

definition tenant1_tx :: tx_row where
  "tenant1_tx =
     \<lparr>tx_id = 1, tx_user_id = 1, tx_date = SqlText ''2024-01-01'', tx_type = SqlText ''income'',
      tx_category = SqlText ''sales'', tx_base = SqlNum 1000, tx_tax = SqlNum 100,
      tx_total = SqlNum 1100, tx_employee = SqlNull, tx_notes = SqlNull,
      tx_created_at = ''2024-01-01 10:00:00''\<rparr>"

definition tenant1_tx2 :: tx_row where
  "tenant1_tx2 =
     \<lparr>tx_id = 2, tx_user_id = 1, tx_date = SqlText ''2024-02-01'', tx_type = SqlText ''expense'',
      tx_category = SqlText ''rent'', tx_base = SqlNum 200, tx_tax = SqlNum 30,
      tx_total = SqlNum 230, tx_employee = SqlNull, tx_notes = SqlNull,
      tx_created_at = ''2024-02-01 09:00:00''\<rparr>"

definition tenant2_tx :: tx_row where
  "tenant2_tx =
     \<lparr>tx_id = 3, tx_user_id = 2, tx_date = SqlText ''2024-01-20'', tx_type = SqlText ''income'',
      tx_category = SqlText ''services'', tx_base = SqlNum 500, tx_tax = SqlNum 75,
      tx_total = SqlNum 575, tx_employee = SqlNull, tx_notes = SqlNull,
      tx_created_at = ''2024-01-20 12:00:00''\<rparr>"

definition tenant1_debt :: debt_row where
  "tenant1_debt =
     \<lparr>debt_id = 1, debt_user_id = 1, debt_date = SqlText ''2024-03-01'', debt_employee = SqlText ''A'',
      debt_kind = SqlText ''advance'', debt_amount = SqlNum 100, debt_delta = SqlNum 100,
      debt_notes = SqlNull, debt_created_at = ''2024-03-01 08:00:00''\<rparr>"

definition tenant1_debt2 :: debt_row where
  "tenant1_debt2 =
     \<lparr>debt_id = 2, debt_user_id = 1, debt_date = SqlText ''2024-01-15'', debt_employee = SqlText ''A'',
      debt_kind = SqlText ''repay'', debt_amount = SqlNum 40, debt_delta = SqlNum (- 40),
      debt_notes = SqlNull, debt_created_at = ''2024-03-02 08:00:00''\<rparr>"

definition two_tenants :: database where
  "two_tenants =
     \<lparr>users = [1, 2],
      settings = [tenant1_settings, tenant1_settings\<lparr>s_user_id := 2\<rparr>],
      transactions = [tenant1_tx, tenant1_tx2, tenant2_tx], debts = [tenant1_debt, tenant1_debt2],
      tx_seq = 3, debt_seq = 2\<rparr>"





definition repayment :: obj where
  "repayment = [(''date'', JStr ''2024-04-02''), (''employee'', JStr ''A''),
                (''kind'', JStr ''repay''), (''amount'', JNum 40), (''delta'', JNum 5)]"

text \<open>
  A JSON document of the flat-file variant: two transactions, made by the users \<open>u1\<close> and
  \<open>u2\<close>, two debts made by \<open>u1\<close>, and settings into which a rate of 15 percent was put.
\<close>

definition tx_t1 :: json where
  "tx_t1 = JObj [(''id'', JStr ''t1''), (''date'', JStr ''2024-01-01''), (''type'', JStr ''income''),
                (''amount'', JNum 1000), (''taxPercent'', JNum 0), (''taxValue'', JNum 0),
                (''total'', JNum 1000), (''createdBy'', JStr ''u1'')]"

definition tx_t2 :: json where
  "tx_t2 = JObj [(''id'', JStr ''t2''), (''date'', JStr ''2024-02-01''), (''type'', JStr ''expense''),
                (''amount'', JNum 200), (''taxPercent'', JNum 0), (''taxValue'', JNum 0),
                (''total'', JNum (- 200)), (''createdBy'', JStr ''u2'')]"

definition debt_d1 :: json where
  "debt_d1 = JObj [(''id'', JStr ''d1''), (''date'', JStr ''2024-03-01''), (''employee'', JStr ''A''),
                (''kind'', JStr ''advance''), (''plus'', JNum 100), (''minus'', JNum 0),
                (''createdBy'', JStr ''u1'')]"

definition debt_d2 :: json where
  "debt_d2 = JObj [(''id'', JStr ''d2''), (''date'', JStr ''2024-01-15''), (''employee'', JStr ''A''),
                (''kind'', JStr ''repay''), (''plus'', JNum 0), (''minus'', JNum 40),
                (''createdBy'', JStr ''u1'')]"

definition shared_doc :: json where
  "shared_doc = JObj
     [(''users'', JArr []),
      (''transactions'', JArr [tx_t1, tx_t2]),
      (''debts'', JArr [debt_d1, debt_d2]),
      (''settings'', JObj [(''tax_income'', JNum 15), (''tax_expense'', JNum 15)])]"

definition shared_file :: db_file where
  "shared_file = Some shared_doc"




section \<open>Auxiliary facts\<close>

lemma map_of_set_prop: "map_of (set_prop fs k v) k' = (if k' = k then Some v else map_of fs k')"
  by (induction fs k v rule: set_prop.induct) auto

lemma spread_snoc: "spread a (c @ [(k, v)]) = set_prop (spread a c) k v"
  by (simp add: spread_def)

lemma map_of_spread:
  "map_of (spread a c) k = (case map_of (rev c) k of Some v \<Rightarrow> Some v | None \<Rightarrow> map_of a k)"
proof (induction c rule: rev_induct)
  case Nil
  then show ?case by (simp add: spread_def)
next
  case (snoc x c)
  obtain k' v' where x: "x = (k', v')" by (cases x)
  show ?case using snoc by (simp add: x spread_snoc map_of_set_prop)
qed

lemma get_prop_spread:
  "get_prop (spread a c) k = (case map_of (rev c) k of Some v \<Rightarrow> Some v | None \<Rightarrow> get_prop a k)"
  unfolding get_prop_def by (rule map_of_spread)

lemma map_of_filter_key:
  "map_of (filter (\<lambda>(k, v). P k) xs) k = (if P k then map_of xs k else None)"
  by (induction xs) auto

lemma get_prop_spread_filter:
  "P k \<Longrightarrow> get_prop (spread a (filter (\<lambda>(k, v). P k) c)) k = get_prop (spread a c) k"
  by (simp add: get_prop_spread rev_filter map_of_filter_key)

lemma text_affinity_not_null: "v \<noteq> SqlNull \<Longrightarrow> text_affinity b v \<noteq> SqlNull"
  by (cases v) (simp_all add: text_affinity_def)


lemma text_affinity_text: "text_affinity b (bind b (Some (JStr s))) = SqlText s"
  by (simp add: text_affinity_def bind_def)

lemma js_not_truthy: "js_not v \<longleftrightarrow> \<not> truthy v"
  by (auto simp: js_not_def truthy_def split: option.splits)

lemma real_affinity_num: "real_affinity b (bind_num (Fin r)) = SqlNum r"
  by (simp add: real_affinity_def bind_num_def)


lemma find_holds: "find P xs = Some t \<Longrightarrow> P t \<and> t \<in> set xs"
  by (auto simp: find_Some_iff)

lemma find_key_unique:
  assumes "distinct (map f xs)" "find (\<lambda>x. f x = i \<and> Q x) xs = Some t" "x \<in> set xs" "f x = i"
  shows "x = t"
proof -
  have "t \<in> set xs" "f t = i"
    using assms(2) by (auto simp: find_Some_iff)
  moreover have "inj_on f (set xs)"
    using assms(1) by (simp add: distinct_map)
  ultimately show ?thesis using assms(3,4) by (auto dest: inj_onD)
qed

lemma update_owned_map:
  assumes "distinct (map f xs)" "find (\<lambda>x. f x = i \<and> Q x) xs = Some t"
  shows "map (\<lambda>x. if f x = i \<and> Q x then g x else x) xs = map (\<lambda>x. if f x = i then g t else x) xs"
proof (rule map_cong[OF refl])
  fix x assume "x \<in> set xs"
  then show "(if f x = i \<and> Q x then g x else x) = (if f x = i then g t else x)"
    using find_key_unique[OF assms] find_holds[OF assms(2)] by auto
qed

lemma filter_single:
  "distinct xs \<Longrightarrow> t \<in> set xs \<Longrightarrow> (\<And>x. x \<in> set xs \<Longrightarrow> P x \<longleftrightarrow> x = t) \<Longrightarrow> filter P xs = [t]"
proof (induction xs)
  case Nil
  then show ?case by simp
next
  case (Cons a xs)
  show ?case
  proof (cases "a = t")
    case True
    then have "filter P xs = []"
      using Cons.prems by (auto simp: filter_empty_conv)
    then show ?thesis using True Cons.prems(3)[of a] by simp
  next
    case False
    then show ?thesis using Cons by auto
  qed
qed

lemma update_owned_filter:
  assumes "distinct (map f xs)" "find (\<lambda>x. f x = i \<and> Q x) xs = Some t"
  shows "filter (\<lambda>x. f x = i \<and> Q x) xs = [t]"
proof (rule filter_single)
  show "distinct xs" using assms(1) by (simp add: distinct_map)
  show "t \<in> set xs" using find_holds[OF assms(2)] by simp
  fix x assume "x \<in> set xs"
  then show "(f x = i \<and> Q x) = (x = t)"
    using find_key_unique[OF assms] find_holds[OF assms(2)] by auto
qed

lemma find_updated:
  assumes "find (\<lambda>x. f x = i \<and> Q x) xs = Some t" "f u = i"
  shows "find (\<lambda>x. f x = i) (map (\<lambda>x. if f x = i then u else x) xs) = Some u"
  using assms by (induction xs) (auto split: if_splits)

lemma find_none_other:
  assumes "distinct (map f xs)" "t \<in> set xs" "\<not> Q t"
  shows "find (\<lambda>x. f x = f t \<and> Q x) xs = None"
proof -
  have "inj_on f (set xs)" using assms(1) by (simp add: distinct_map)
  then have "x = t" if "x \<in> set xs" "f x = f t" for x
    using that assms(2) by (auto dest: inj_onD)
  then show ?thesis using assms(3) by (auto simp: find_None_iff)
qed

lemma filter_none_other:
  assumes "distinct (map f xs)" "t \<in> set xs" "\<not> Q t"
  shows "filter (\<lambda>x. \<not> (f x = f t \<and> Q x)) xs = xs"
proof -
  have "inj_on f (set xs)" using assms(1) by (simp add: distinct_map)
  then have "x = t" if "x \<in> set xs" "f x = f t" for x
    using that assms(2) by (auto dest: inj_onD)
  then show ?thesis using assms(3) by (auto simp: filter_id_conv)
qed



lemma sqlite_PUT_debts_owned:
  assumes owned: "select_debt_owned db i uid = Some d"
    and ids: "distinct (map debt_id (debts db))"
  shows "sqlite_PUT_debts b uid i body db =
     (let newVals = spread (debt_obj d) body;
          amt = Number b (js_or (get_prop newVals ''amount'') (Some (JNum 0)));
          delta = (if get_prop newVals ''kind'' = Some (JStr ''advance'') then amt else num_neg amt);
          d' = d\<lparr>
                 debt_date := text_affinity b (bind b (get_prop newVals ''date'')),
                 debt_employee := text_affinity b (bind b (get_prop newVals ''employee'')),
                 debt_kind := text_affinity b (bind b (get_prop newVals ''kind'')),
                 debt_amount := real_affinity b (bind_num amt),
                 debt_delta := real_affinity b (bind_num delta),
                 debt_notes := text_affinity b
                   (bind b (js_or (get_prop newVals ''notes'') (Some JNull)))\<rparr>
      in if debt_constraints d'
         then (row_reply (Some (debt_obj d')),
               db\<lparr>debts := map (\<lambda>r. if debt_id r = i then d' else r) (debts db)\<rparr>)
         else (Threw SQLITE_CONSTRAINT, db))"
proof -
  note o = owned[unfolded select_debt_owned_def]
  have idt: "debt_id d = i" using find_holds[OF o] by simp
  show ?thesis
    unfolding sqlite_PUT_debts_def Let_def
    by (simp add: owned select_debt_def
          update_owned_filter[OF ids o] update_owned_map[OF ids o] find_updated[OF o] idt)
qed

lemma sqlite_PUT_debts_ignores:
  "sqlite_PUT_debts b uid i (filter (\<lambda>(k, v). k \<noteq> ''delta'') body) db
   = sqlite_PUT_debts b uid i body db"
proof -
  have g: "get_prop (spread a (filter (\<lambda>(k, v). k \<noteq> ''delta'') body)) k
           = get_prop (spread a body) k"
    if "k \<noteq> ''delta''" for a k
    using that get_prop_spread_filter[where P = "\<lambda>k. k \<noteq> ''delta''"] by simp
  show ?thesis
    unfolding sqlite_PUT_debts_def by (simp add: g Let_def cong: if_cong split: option.splits)
qed

lemma sqlite_debt_create:
  assumes user: "uid \<in> set (users db)"
    and date: "truthy (get_prop body ''date'')" "bind b (get_prop body ''date'') \<noteq> SqlNull"
    and emp: "truthy (get_prop body ''employee'')" "bind b (get_prop body ''employee'') \<noteq> SqlNull"
    and kind: "get_prop body ''kind'' = Some (JStr k)" "k = ''advance'' \<or> k = ''repay''"
    and amount: "\<not> nullish (get_prop body ''amount'')"
      "Number b (js_or (get_prop body ''amount'') (Some (JNum 0))) = Fin x"
  shows "\<exists>row. sqlite_POST_debts b uid now body db
            = (row_reply (Some (debt_obj row)),
               db\<lparr>debts := debts db @ [row], debt_seq := debt_id row\<rparr>)
          \<and> debt_user_id row = uid
          \<and> debt_kind row = SqlText k
          \<and> debt_amount row = SqlNum x
          \<and> debt_delta row = SqlNum (signed_delta k x)"
proof -
  have tk: "truthy (get_prop body ''kind'')" using kind by (auto simp: truthy_def)
  have run: "sqlite_POST_debts b uid now body db =
      (let row = \<lparr>debt_id = next_id (debt_seq db) (map debt_id (debts db)),
                      debt_user_id = uid,
                      debt_date = text_affinity b (bind b (get_prop body ''date'')),
                      debt_employee = text_affinity b (bind b (get_prop body ''employee'')),
                      debt_kind = SqlText k,
                      debt_amount = SqlNum x,
                      debt_delta = SqlNum (signed_delta k x),
                      debt_notes = text_affinity b (bind b (js_or (get_prop body ''notes'') (Some JNull))),
                      debt_created_at = now\<rparr>
       in (row_reply (Some (debt_obj row)),
               db\<lparr>debts := debts db @ [row], debt_seq := debt_id row\<rparr>))"
    using user date emp tk kind amount
    by (auto simp: sqlite_POST_debts_def Let_def js_not_truthy debt_constraints_def foreign_key_def
         text_affinity_not_null real_affinity_num text_affinity_text signed_delta_def)
  show ?thesis
    unfolding run Let_def by (rule exI, intro conjI, rule refl) simp_all
qed

lemma sqlite_debt_update:
  assumes owned: "select_debt_owned db i uid = Some d"
    and ids: "distinct (map debt_id (debts db))"
    and date: "bind b (get_prop (spread (debt_obj d) body) ''date'') \<noteq> SqlNull"
    and emp: "bind b (get_prop (spread (debt_obj d) body) ''employee'') \<noteq> SqlNull"
    and kind: "get_prop (spread (debt_obj d) body) ''kind'' = Some (JStr k)"
      "k = ''advance'' \<or> k = ''repay''"
    and amount: "Number b (js_or (get_prop (spread (debt_obj d) body) ''amount'') (Some (JNum 0))) = Fin x"
  shows "sqlite_PUT_debts b uid i body db =
      (let newVals = spread (debt_obj d) body;
           d' = d\<lparr>
                 debt_date := text_affinity b (bind b (get_prop newVals ''date'')),
                 debt_employee := text_affinity b (bind b (get_prop newVals ''employee'')),
                 debt_kind := SqlText k,
                 debt_amount := SqlNum x,
                 debt_delta := SqlNum (signed_delta k x),
                 debt_notes := text_affinity b
                   (bind b (js_or (get_prop newVals ''notes'') (Some JNull)))\<rparr>
       in (row_reply (Some (debt_obj d')),
           db\<lparr>debts := map (\<lambda>r. if debt_id r = i then d' else r) (debts db)\<rparr>))"
  using date emp kind amount
  by (auto simp: sqlite_PUT_debts_owned[OF owned ids] Let_def debt_constraints_def
        text_affinity_not_null real_affinity_num text_affinity_text signed_delta_def)























section \<open>The claims\<close>

subsection \<open>C1: update re-derives tax and total\<close>




subsection \<open>C2: tenant isolation of update and delete\<close>

text \<open>
  Claim C2, as far as the code bears it out: in the SQLite variant, where ids are unique, an
  update of a transaction or debt of another tenant answers 404 \<open>NOT_FOUND\<close> and leaves the
  database as it is; a delete leaves the database as it is too, but answers \<open>{ok: true}\<close>.
\<close>

theorem tenant_isolation:
  "(distinct (map tx_id (transactions db)) \<and> t \<in> set (transactions db) \<and> tx_user_id t \<noteq> uid
      \<longrightarrow> sqlite_PUT_transactions b uid (tx_id t) body db = (res_error 404 ''NOT_FOUND'', db)
        \<and> sqlite_DELETE_transactions uid (tx_id t) db = (res_json (JObj [(''ok'', JBool True)]), db))
   \<and> (distinct (map debt_id (debts db)) \<and> d \<in> set (debts db) \<and> debt_user_id d \<noteq> uid
      \<longrightarrow> sqlite_PUT_debts b uid (debt_id d) body db = (res_error 404 ''NOT_FOUND'', db)
        \<and> sqlite_DELETE_debts uid (debt_id d) db = (res_json (JObj [(''ok'', JBool True)]), db))"
proof (intro conjI impI)
  assume a: "distinct (map tx_id (transactions db)) \<and> t \<in> set (transactions db) \<and> tx_user_id t \<noteq> uid"
  then have n: "\<not> (tx_user_id t = uid)" by simp
  show "sqlite_PUT_transactions b uid (tx_id t) body db = (res_error 404 ''NOT_FOUND'', db)"
    using a find_none_other[of tx_id "transactions db" t "\<lambda>x. tx_user_id x = uid"]
    by (simp add: sqlite_PUT_transactions_def select_tx_owned_def)
  show "sqlite_DELETE_transactions uid (tx_id t) db = (res_json (JObj [(''ok'', JBool True)]), db)"
    using a filter_none_other[of tx_id "transactions db" t "\<lambda>x. tx_user_id x = uid"]
    by (simp add: sqlite_DELETE_transactions_def)
next
  assume a: "distinct (map debt_id (debts db)) \<and> d \<in> set (debts db) \<and> debt_user_id d \<noteq> uid"
  show "sqlite_PUT_debts b uid (debt_id d) body db = (res_error 404 ''NOT_FOUND'', db)"
    using a find_none_other[of debt_id "debts db" d "\<lambda>x. debt_user_id x = uid"]
    by (simp add: sqlite_PUT_debts_def select_debt_owned_def)
  show "sqlite_DELETE_debts uid (debt_id d) db = (res_json (JObj [(''ok'', JBool True)]), db)"
    using a filter_none_other[of debt_id "debts db" d "\<lambda>x. debt_user_id x = uid"]
    by (simp add: sqlite_DELETE_debts_def)
qed

text \<open>Tenant 2 on the first transaction and the first debt of tenant 1.\<close>

theorem tenant_isolation_witness:
  "distinct (map tx_id (transactions two_tenants)) \<and> tenant1_tx \<in> set (transactions two_tenants)
   \<and> tx_user_id tenant1_tx \<noteq> 2
   \<and> distinct (map debt_id (debts two_tenants)) \<and> tenant1_debt \<in> set (debts two_tenants)
   \<and> debt_user_id tenant1_debt \<noteq> 2
   \<and> sqlite_PUT_transactions sample_builtins 2 1 [(''base'', JNum 0)] two_tenants
       = (res_error 404 ''NOT_FOUND'', two_tenants)
   \<and> sqlite_DELETE_transactions 2 1 two_tenants = (res_json (JObj [(''ok'', JBool True)]), two_tenants)
   \<and> sqlite_PUT_debts sample_builtins 2 1 [(''base'', JNum 0)] two_tenants
       = (res_error 404 ''NOT_FOUND'', two_tenants)
   \<and> sqlite_DELETE_debts 2 1 two_tenants = (res_json (JObj [(''ok'', JBool True)]), two_tenants)"
proof -
  have h: "distinct (map tx_id (transactions two_tenants)) \<and> tenant1_tx \<in> set (transactions two_tenants)
     \<and> tx_user_id tenant1_tx \<noteq> 2"
    by code_simp
  have g: "distinct (map debt_id (debts two_tenants)) \<and> tenant1_debt \<in> set (debts two_tenants)
     \<and> debt_user_id tenant1_debt \<noteq> 2"
    by code_simp
  have i: "tx_id tenant1_tx = 1" "debt_id tenant1_debt = 1"
    by (simp_all add: tenant1_tx_def tenant1_debt_def)
  show ?thesis
    using h g tenant_isolation[of two_tenants tenant1_tx 2 sample_builtins "[(''base'', JNum 0)]" tenant1_debt]
    unfolding i by blast
qed

text \<open>
  As stated the claim fails twice. In the SQLite variant the delete of another tenant's row
  answers success, not \<open>NOT_FOUND\<close>. In the flat-file variant the handlers do not look at
  the caller at all: the update and the delete of the transaction that \<open>u1\<close> made go
  through for any caller.
\<close>

theorem tenant_isolation_counterexample:
  "fst (sqlite_DELETE_transactions 2 1 two_tenants) = Reply 200 (Some (JObj [(''ok'', JBool True)]))
   \<and> fst (flat_GET_transactions sample_builtins [] (snd (flat_DELETE_transactions ''t1'' shared_file)))
       = res_json (JArr [tx_t2])
   \<and> fst (flat_GET_debts (snd (flat_DELETE_debts ''d1'' shared_file))) = res_json (JArr [debt_d2])
   \<and> fst (flat_PUT_transactions sample_builtins ''t1'' [(''amount'', JNum 1)] shared_file)
       = res_json (JObj [(''id'', JStr ''t1''), (''date'', JStr ''2024-01-01''), (''type'', JStr ''income''),
                (''amount'', JNum 1), (''taxPercent'', JNum 0), (''taxValue'', JNum 0),
                (''total'', JNum 1), (''createdBy'', JStr ''u1'')])"
  by code_simp

subsection \<open>C3: lists show only the tenant's records\<close>




subsection \<open>C4: the tax computation\<close>





subsection \<open>C5: balances per employee\<close>




subsection \<open>C6: the delta of a debt\<close>

text \<open>
  Claim C6, as far as the code bears it out: in the SQLite variant, a create with a kind of
  \<open>advance\<close> or \<open>repay\<close> and an update whose merged kind is one of the two store the
  amount and, as delta, the amount for an advance and its negative for a repayment; for the
  update both come from the merged kind and amount, and a \<open>delta\<close> in the payload changes
  nothing, neither in the answer nor in the database.
\<close>

theorem delta_derived:
  "(uid \<in> set (users db)
      \<and> truthy (get_prop body ''date'') \<and> bind b (get_prop body ''date'') \<noteq> SqlNull
      \<and> truthy (get_prop body ''employee'') \<and> bind b (get_prop body ''employee'') \<noteq> SqlNull
      \<and> get_prop body ''kind'' = Some (JStr k) \<and> (k = ''advance'' \<or> k = ''repay'')
      \<and> \<not> nullish (get_prop body ''amount'')
      \<and> Number b (js_or (get_prop body ''amount'') (Some (JNum 0))) = Fin x
     \<longrightarrow> (\<exists>row. sqlite_POST_debts b uid now body db
                  = (row_reply (Some (debt_obj row)),
                     db\<lparr>debts := debts db @ [row], debt_seq := debt_id row\<rparr>)
                \<and> debt_user_id row = uid
                \<and> debt_kind row = SqlText k
                \<and> debt_amount row = SqlNum x
                \<and> debt_delta row = SqlNum (signed_delta k x)))
   \<and> (select_debt_owned db i uid = Some d
      \<and> distinct (map debt_id (debts db))
      \<and> bind b (get_prop (spread (debt_obj d) body) ''date'') \<noteq> SqlNull
      \<and> bind b (get_prop (spread (debt_obj d) body) ''employee'') \<noteq> SqlNull
      \<and> get_prop (spread (debt_obj d) body) ''kind'' = Some (JStr k')
      \<and> (k' = ''advance'' \<or> k' = ''repay'')
      \<and> Number b (js_or (get_prop (spread (debt_obj d) body) ''amount'') (Some (JNum 0))) = Fin x'
     \<longrightarrow> sqlite_PUT_debts b uid i body db =
          (let newVals = spread (debt_obj d) body;
               d' = d\<lparr>
                 debt_date := text_affinity b (bind b (get_prop newVals ''date'')),
                 debt_employee := text_affinity b (bind b (get_prop newVals ''employee'')),
                 debt_kind := SqlText k',
                 debt_amount := SqlNum x',
                 debt_delta := SqlNum (signed_delta k' x'),
                 debt_notes := text_affinity b
                   (bind b (js_or (get_prop newVals ''notes'') (Some JNull)))\<rparr>
           in (row_reply (Some (debt_obj d')),
               db\<lparr>debts := map (\<lambda>r. if debt_id r = i then d' else r) (debts db)\<rparr>)))
   \<and> sqlite_PUT_debts b uid i (filter (\<lambda>(k, v). k \<noteq> ''delta'') body) db
       = sqlite_PUT_debts b uid i body db"
proof (intro conjI impI)
  assume "uid \<in> set (users db)
      \<and> truthy (get_prop body ''date'') \<and> bind b (get_prop body ''date'') \<noteq> SqlNull
      \<and> truthy (get_prop body ''employee'') \<and> bind b (get_prop body ''employee'') \<noteq> SqlNull
      \<and> get_prop body ''kind'' = Some (JStr k) \<and> (k = ''advance'' \<or> k = ''repay'')
      \<and> \<not> nullish (get_prop body ''amount'')
      \<and> Number b (js_or (get_prop body ''amount'') (Some (JNum 0))) = Fin x"
  then show "\<exists>row. sqlite_POST_debts b uid now body db
                  = (row_reply (Some (debt_obj row)),
                     db\<lparr>debts := debts db @ [row], debt_seq := debt_id row\<rparr>)
                \<and> debt_user_id row = uid
                \<and> debt_kind row = SqlText k
                \<and> debt_amount row = SqlNum x
                \<and> debt_delta row = SqlNum (signed_delta k x)"
    using sqlite_debt_create[of uid db body b k x now] by blast
next
  assume "select_debt_owned db i uid = Some d
      \<and> distinct (map debt_id (debts db))
      \<and> bind b (get_prop (spread (debt_obj d) body) ''date'') \<noteq> SqlNull
      \<and> bind b (get_prop (spread (debt_obj d) body) ''employee'') \<noteq> SqlNull
      \<and> get_prop (spread (debt_obj d) body) ''kind'' = Some (JStr k')
      \<and> (k' = ''advance'' \<or> k' = ''repay'')
      \<and> Number b (js_or (get_prop (spread (debt_obj d) body) ''amount'') (Some (JNum 0))) = Fin x'"
  then show "sqlite_PUT_debts b uid i body db =
          (let newVals = spread (debt_obj d) body;
               d' = d\<lparr>
                 debt_date := text_affinity b (bind b (get_prop newVals ''date'')),
                 debt_employee := text_affinity b (bind b (get_prop newVals ''employee'')),
                 debt_kind := SqlText k',
                 debt_amount := SqlNum x',
                 debt_delta := SqlNum (signed_delta k' x'),
                 debt_notes := text_affinity b
                   (bind b (js_or (get_prop newVals ''notes'') (Some JNull)))\<rparr>
           in (row_reply (Some (debt_obj d')),
               db\<lparr>debts := map (\<lambda>r. if debt_id r = i then d' else r) (debts db)\<rparr>))"
    using sqlite_debt_update[of db i uid d b body k' x'] by blast
next
  show "sqlite_PUT_debts b uid i (filter (\<lambda>(k, v). k \<noteq> ''delta'') body) db
       = sqlite_PUT_debts b uid i body db"
    by (rule sqlite_PUT_debts_ignores)
qed

text \<open>
  Tenant 1 records a repayment of 40 and sends a delta of 5 along, then turns its advance of
  100 into that repayment: both times the delta stored is -40.
\<close>

theorem delta_derived_witness:
  "1 \<in> set (users two_tenants)
   \<and> get_prop repayment ''kind'' = Some (JStr ''repay'')
   \<and> get_prop repayment ''delta'' = Some (JNum 5)
   \<and> select_debt_owned two_tenants 1 1 = Some tenant1_debt
   \<and> signed_delta ''repay'' 40 = - 40
   \<and> (\<exists>row. sqlite_POST_debts sample_builtins 1 ''2024-04-02 09:00:00'' repayment two_tenants
            = (row_reply (Some (debt_obj row)),
               two_tenants\<lparr>debts := debts two_tenants @ [row], debt_seq := debt_id row\<rparr>)
          \<and> debt_kind row = SqlText ''repay'' \<and> debt_amount row = SqlNum 40
          \<and> debt_delta row = SqlNum (- 40))
   \<and> sqlite_PUT_debts sample_builtins 1 1 repayment two_tenants
      = (row_reply (Some (debt_obj (tenant1_debt\<lparr>debt_date := SqlText ''2024-04-02'',
            debt_kind := SqlText ''repay'', debt_amount := SqlNum 40, debt_delta := SqlNum (- 40)\<rparr>))),
         two_tenants\<lparr>debts :=
           [tenant1_debt\<lparr>debt_date := SqlText ''2024-04-02'',
              debt_kind := SqlText ''repay'', debt_amount := SqlNum 40, debt_delta := SqlNum (- 40)\<rparr>,
            tenant1_debt2]\<rparr>)"
proof -
  have p: "1 \<in> set (users two_tenants)
      \<and> truthy (get_prop repayment ''date'') \<and> bind sample_builtins (get_prop repayment ''date'') \<noteq> SqlNull
      \<and> truthy (get_prop repayment ''employee'')
      \<and> bind sample_builtins (get_prop repayment ''employee'') \<noteq> SqlNull
      \<and> get_prop repayment ''kind'' = Some (JStr ''repay'') \<and> (''repay'' = ''advance'' \<or> ''repay'' = ''repay'')
      \<and> \<not> nullish (get_prop repayment ''amount'')
      \<and> Number sample_builtins (js_or (get_prop repayment ''amount'') (Some (JNum 0))) = Fin 40"
    by code_simp
  have q: "select_debt_owned two_tenants 1 1 = Some tenant1_debt
      \<and> distinct (map debt_id (debts two_tenants))
      \<and> bind sample_builtins (get_prop (spread (debt_obj tenant1_debt) repayment) ''date'') \<noteq> SqlNull
      \<and> bind sample_builtins (get_prop (spread (debt_obj tenant1_debt) repayment) ''employee'') \<noteq> SqlNull
      \<and> get_prop (spread (debt_obj tenant1_debt) repayment) ''kind'' = Some (JStr ''repay'')
      \<and> (''repay'' = ''advance'' \<or> ''repay'' = ''repay'')
      \<and> Number sample_builtins
            (js_or (get_prop (spread (debt_obj tenant1_debt) repayment) ''amount'') (Some (JNum 0))) = Fin 40"
    by code_simp
  have s: "signed_delta ''repay'' 40 = - 40" by code_simp
  have d: "get_prop repayment ''delta'' = Some (JNum 5)" by code_simp
  note t = delta_derived[of 1 two_tenants repayment sample_builtins "''repay''" 40
      "''2024-04-02 09:00:00''" 1 tenant1_debt "''repay''" 40]
  have c1: "\<exists>row. sqlite_POST_debts sample_builtins 1 ''2024-04-02 09:00:00'' repayment two_tenants
            = (row_reply (Some (debt_obj row)),
               two_tenants\<lparr>debts := debts two_tenants @ [row], debt_seq := debt_id row\<rparr>)
          \<and> debt_kind row = SqlText ''repay'' \<and> debt_amount row = SqlNum 40
          \<and> debt_delta row = SqlNum (- 40)"
    using t[THEN conjunct1, THEN mp, OF p] unfolding s by blast
  have c2: "sqlite_PUT_debts sample_builtins 1 1 repayment two_tenants
      = (row_reply (Some (debt_obj (tenant1_debt\<lparr>debt_date := SqlText ''2024-04-02'',
            debt_kind := SqlText ''repay'', debt_amount := SqlNum 40, debt_delta := SqlNum (- 40)\<rparr>))),
         two_tenants\<lparr>debts :=
           [tenant1_debt\<lparr>debt_date := SqlText ''2024-04-02'',
              debt_kind := SqlText ''repay'', debt_amount := SqlNum 40, debt_delta := SqlNum (- 40)\<rparr>,
            tenant1_debt2]\<rparr>)"
    by (subst t[THEN conjunct2, THEN conjunct1, THEN mp, OF q, unfolded Let_def]) code_simp
  show ?thesis using p q s d c1 c2 by blast
qed

text \<open>
  The debts of the flat-file variant have no delta. A create stores \<open>plus\<close> and \<open>minus\<close>
  as sent (here neither: an amount is not read), whatever the kind; an update stores the
  payload as it is, a delta of 999 on an advance included.
\<close>

theorem delta_counterexample:
  "fst (flat_POST_debts sample_builtins (Some (JStr ''u1'')) ''d3'' ''2024-04-02T09:00:00Z''
          [(''date'', JStr ''2024-04-02''), (''employee'', JStr ''A''), (''kind'', JStr ''repay''),
           (''amount'', JNum 40)]
          shared_file)
     = res_json (JObj
         [(''id'', JStr ''d3''), (''date'', JStr ''2024-04-02''), (''employee'', JStr ''A''),
          (''employeeId'', JNull), (''kind'', JStr ''repay''), (''description'', JNull),
          (''plus'', JNum 0), (''minus'', JNum 0), (''createdBy'', JStr ''u1''),
          (''createdAt'', JStr ''2024-04-02T09:00:00Z'')])
   \<and> fst (flat_GET_debts (snd (flat_PUT_debts ''d1'' [(''delta'', JNum 999)] shared_file)))
     = res_json (JArr
         [JObj [(''id'', JStr ''d1''), (''date'', JStr ''2024-03-01''), (''employee'', JStr ''A''),
                (''kind'', JStr ''advance''), (''plus'', JNum 100), (''minus'', JNum 0),
                (''createdBy'', JStr ''u1''), (''delta'', JNum 999)],
          debt_d2])"
  by code_simp

subsection \<open>C7: validation before any write\<close>




subsection \<open>C8: the order of the lists\<close>




subsection \<open>C10: import replaces the store\<close>

text \<open>
  Claim C10, as far as the code bears it out: in the flat-file variant, whoever calls, an
  import whose \<open>data\<close> is truthy (every object and every array is) writes \<open>data\<close> as the
  whole document, unchecked: what is read next, and what the export answers, is \<open>data\<close>.
\<close>

theorem import_replaces_store:
  assumes "truthy (get_prop body ''data'')"
  shows "\<exists>data. get_prop body ''data'' = Some data
           \<and> flat_POST_import body f = (res_json (JObj [(''ok'', JBool True)]), Some data)
           \<and> readDB (snd (flat_POST_import body f)) = (data, Some data)
           \<and> fst (flat_GET_export (snd (flat_POST_import body f))) = res_json data"
  using assms
  by (auto simp: flat_POST_import_def truthy_def js_not_def writeDB_def readDB_def ensureDB_def
        flat_GET_export_def split: option.splits)

text \<open>An import of a whole document where there was no file.\<close>

theorem import_replaces_store_witness:
  "truthy (get_prop [(''data'', shared_doc)] ''data'')
   \<and> flat_POST_import [(''data'', shared_doc)] None = (res_json (JObj [(''ok'', JBool True)]), shared_file)
   \<and> (\<exists>data. get_prop [(''data'', shared_doc)] ''data'' = Some data
          \<and> readDB (snd (flat_POST_import [(''data'', shared_doc)] None)) = (data, Some data))"
proof -
  have h: "truthy (get_prop [(''data'', shared_doc)] ''data'')" by code_simp
  have c: "flat_POST_import [(''data'', shared_doc)] None
      = (res_json (JObj [(''ok'', JBool True)]), shared_file)"
    by code_simp
  show ?thesis
    using h c import_replaces_store[OF h, of None] by blast
qed

text \<open>
  A body can have a \<open>data\<close> field and be refused: when \<open>data\<close> is \<open>0\<close>, \<open>null\<close>,
  \<open>false\<close> or the empty string, the answer is 400 and the document stays.
\<close>

theorem import_counterexample:
  "flat_POST_import [(''data'', JNum 0)] shared_file = (res_error 400 ''data required'', shared_file)
   \<and> flat_POST_import [(''data'', JNull)] shared_file = (res_error 400 ''data required'', shared_file)
   \<and> flat_POST_import [(''data'', JBool False)] shared_file
       = (res_error 400 ''data required'', shared_file)
   \<and> flat_POST_import [(''data'', JStr [])] shared_file = (res_error 400 ''data required'', shared_file)"
  by code_simp

end
